theory Spec2Isabelle
  imports Main
begin

section \<open>PRST gridtools: the neighborship relation of a grid\<close>

text \<open>
  A shallow embedding of \<^verbatim>\<open>getNeighborship\<close> from \<^verbatim>\<open>prst/utils/gridtools.py\<close>.
  The function reads \<^verbatim>\<open>G.faces.neighbors\<close>, optionally drops the boundary rows,
  optionally appends the rows of \<^verbatim>\<open>G.nnc.cells\<close>, and optionally returns a column of
  flags beside the relation. Exceptions are values of type \<open>error\<close>; a call yields
  \<open>Inl e\<close> when the Python raises \<open>e\<close> and \<open>Inr r\<close> when it returns \<open>r\<close>.
\<close>

subsection \<open>Two-dimensional arrays\<close>

text \<open>
  A two-dimensional numpy array is its list of rows together with its number of columns
  (\<^verbatim>\<open>shape[1]\<close>), which an array with no rows still has. \<^verbatim>\<open>shape[0]\<close> is the number of
  rows.
\<close>

datatype 'a ndarray = NDArray (shape1: nat) (rows: "'a list list")

definition shape0 :: "'a ndarray \<Rightarrow> nat" where
  "shape0 a = length (rows a)"

datatype error = AssertionError | AttributeError | TypeError | ValueError

text \<open>Sequencing of two steps of which the first may raise.\<close>

definition and_then :: "error + 'a \<Rightarrow> ('a \<Rightarrow> error + 'b) \<Rightarrow> error + 'b" where
  "and_then m f = (case m of Inl e \<Rightarrow> Inl e | Inr x \<Rightarrow> f x)"

text \<open>\<^verbatim>\<open>a != c\<close>: the elementwise comparison of an array with a scalar.\<close>

definition ne_scalar :: "int ndarray \<Rightarrow> int \<Rightarrow> bool ndarray" where
  "ne_scalar a c = NDArray (shape1 a) (map (map (\<lambda>x. x \<noteq> c)) (rows a))"

text \<open>\<^verbatim>\<open>np.all(a, axis=1)\<close>: one truth value per row, true when the whole row is.\<close>

definition np_all_axis1 :: "bool ndarray \<Rightarrow> bool list" where
  "np_all_axis1 a = map (list_all (\<lambda>b. b)) (rows a)"

text \<open>
  \<^verbatim>\<open>a[mask, :]\<close>: the rows of \<open>a\<close> at which the selector is true, in their
  order. The selector used by the function is computed from \<open>a\<close> itself and has one
  entry per row.
\<close>

definition index_rows :: "'a ndarray \<Rightarrow> bool list \<Rightarrow> 'a ndarray" where
  "index_rows a sel = NDArray (shape1 a) (map fst (filter snd (zip (rows a) sel)))"

text \<open>
  \<^verbatim>\<open>np.vstack((a, b))\<close>: the rows of \<open>b\<close> below those of \<open>a\<close>; numpy raises
  \<^verbatim>\<open>ValueError\<close> when the two arrays differ in their number of columns.
\<close>

definition np_vstack :: "'a ndarray \<Rightarrow> 'a ndarray \<Rightarrow> error + 'a ndarray" where
  "np_vstack a b =
     (if shape1 a = shape1 b then Inr (NDArray (shape1 a) (rows a @ rows b))
      else Inl ValueError)"

text \<open>
  The second argument of \<^verbatim>\<open>np.zeros\<close> and \<^verbatim>\<open>np.ones\<close> is the data type of the new
  array. The function passes \<^verbatim>\<open>dtype=bool\<close> to the first and the integer \<^verbatim>\<open>1\<close> to the
  second. An integer is not a data type: numpy raises \<^verbatim>\<open>TypeError\<close> on it and builds
  no array.
\<close>

datatype dtype_arg = BoolType | IntValue int

definition np_full :: "bool \<Rightarrow> nat \<times> nat \<Rightarrow> dtype_arg \<Rightarrow> error + bool ndarray" where
  "np_full v shape dt =
     (case dt of
        BoolType \<Rightarrow> Inr (NDArray (snd shape) (replicate (fst shape) (replicate (snd shape) v)))
      | IntValue _ \<Rightarrow> Inl TypeError)"

definition np_zeros :: "nat \<times> nat \<Rightarrow> dtype_arg \<Rightarrow> error + bool ndarray" where
  "np_zeros = np_full False"

definition np_ones :: "nat \<times> nat \<Rightarrow> dtype_arg \<Rightarrow> error + bool ndarray" where
  "np_ones = np_full True"

subsection \<open>The grid\<close>

text \<open>
  The grid object always has \<^verbatim>\<open>faces.neighbors\<close>. The attribute \<^verbatim>\<open>nnc\<close> may be
  absent, and an \<^verbatim>\<open>nnc\<close> object may lack \<^verbatim>\<open>cells\<close>: both are optional fields, so
  that \<^verbatim>\<open>hasattr\<close> is a test for \<open>None\<close> and reading an absent attribute raises
  \<^verbatim>\<open>AttributeError\<close>.
\<close>

record Faces =
  neighbors :: "int ndarray"

record NNC =
  cells :: "int ndarray option"

record Grid =
  faces :: Faces
  nnc :: "NNC option"

definition hasattr_nnc :: "Grid \<Rightarrow> bool" where
  "hasattr_nnc G = (nnc G \<noteq> None)"

definition getattr_nnc :: "Grid \<Rightarrow> error + NNC" where
  "getattr_nnc G = (case nnc G of None \<Rightarrow> Inl AttributeError | Some n \<Rightarrow> Inr n)"

definition hasattr_cells :: "NNC \<Rightarrow> bool" where
  "hasattr_cells n = (cells n \<noteq> None)"

definition getattr_cells :: "NNC \<Rightarrow> error + int ndarray" where
  "getattr_cells n = (case cells n of None \<Rightarrow> Inl AttributeError | Some c \<Rightarrow> Inr c)"

text \<open>\<^verbatim>\<open>G.nnc.cells\<close>: the first absent attribute on the way raises.\<close>

definition nnc_cells :: "Grid \<Rightarrow> error + int ndarray" where
  "nnc_cells G = and_then (getattr_nnc G) getattr_cells"

subsection \<open>getNeighborship\<close>

text \<open>The function returns \<^verbatim>\<open>N\<close> alone or the pair \<^verbatim>\<open>(N, isnnc)\<close>.\<close>

datatype result = OnlyN "int ndarray" | Both "int ndarray" "bool ndarray"

fun result_N :: "result \<Rightarrow> int ndarray" where
  "result_N (OnlyN N) = N"
| "result_N (Both N isnnc) = N"

fun arity :: "result \<Rightarrow> nat" where
  "arity (OnlyN N) = 1"
| "arity (Both N isnnc) = 2"

text \<open>Lines 104 to 106: \<^verbatim>\<open>N = N[np.all(N != -1, axis=1), :]\<close> unless \<^verbatim>\<open>incBdry\<close>.\<close>

definition exclude_boundary :: "int ndarray \<Rightarrow> int ndarray" where
  "exclude_boundary N = index_rows N (np_all_axis1 (ne_scalar N (- 1)))"

definition geometric_block :: "Grid \<Rightarrow> bool \<Rightarrow> int ndarray" where
  "geometric_block G incBdry =
     (let N = neighbors (faces G)
      in if \<not> incBdry then exclude_boundary N else N)"

text \<open>
  Lines 111 to 113: in topological mode, when \<^verbatim>\<open>hasattr(G, "nnc")\<close> and
  \<^verbatim>\<open>hasattr(G.nnc, "cells")\<close> both hold, the assertion on the number of columns and then
  the stacking of \<^verbatim>\<open>G.nnc.cells\<close> below \<^verbatim>\<open>N\<close>.
\<close>

definition has_nnc_cells :: "Grid \<Rightarrow> bool" where
  "has_nnc_cells G =
     (hasattr_nnc G \<and> (case getattr_nnc G of Inl e \<Rightarrow> False | Inr n \<Rightarrow> hasattr_cells n))"

definition append_nnc :: "Grid \<Rightarrow> string \<Rightarrow> int ndarray \<Rightarrow> error + int ndarray" where
  "append_nnc G kind N =
     (if kind = ''Topological'' \<and> has_nnc_cells G
      then and_then (nnc_cells G) (\<lambda>c.
             if shape1 c = 2 then np_vstack N c else Inl AssertionError)
      else Inr N)"

text \<open>
  Lines 116 to 119: the \<^verbatim>\<open>try\<close> block. \<^verbatim>\<open>G.nnc.cells.shape[0]\<close> is evaluated first,
  then \<^verbatim>\<open>np.ones\<close> with the integer \<^verbatim>\<open>1\<close> in the place of the data type, then
  \<^verbatim>\<open>np.vstack\<close>. Only \<^verbatim>\<open>AttributeError\<close> is caught, and then \<^verbatim>\<open>isnnc\<close> is left as it
  was. The block does not look at \<^verbatim>\<open>kind\<close>.
\<close>

definition append_flags :: "Grid \<Rightarrow> bool ndarray \<Rightarrow> error + bool ndarray" where
  "append_flags G isnnc =
     (case and_then (nnc_cells G) (\<lambda>c.
             and_then (np_ones (shape0 c, 1) (IntValue 1)) (\<lambda>t.
             np_vstack isnnc t)) of
        Inl AttributeError \<Rightarrow> Inr isnnc
      | Inl e \<Rightarrow> Inl e
      | Inr v \<Rightarrow> Inr v)"

text \<open>
  The whole function, one branch for each side of the test \<^verbatim>\<open>nargout >= 2\<close>, which
  the source makes twice: with flags, line 109 builds the column of zeros from the
  \<^verbatim>\<open>N\<close> of that moment, lines 111 to 113 may extend \<^verbatim>\<open>N\<close>, lines 116 to 120 may
  extend the flags and return the pair; without flags, only lines 111 to 113 run before
  \<^verbatim>\<open>N\<close> is returned.
\<close>

definition getNeighborship :: "Grid \<Rightarrow> string \<Rightarrow> bool \<Rightarrow> int \<Rightarrow> error + result" where
  "getNeighborship G kind incBdry nargout =
     (let N = geometric_block G incBdry
      in if nargout \<ge> 2
         then and_then (np_zeros (shape0 N, 1) BoolType) (\<lambda>isnnc.
              and_then (append_nnc G kind N) (\<lambda>N'.
              and_then (append_flags G isnnc) (\<lambda>isnnc'.
              Inr (Both N' isnnc'))))
         else and_then (append_nnc G kind N) (\<lambda>N'.
              Inr (OnlyN N')))"

subsection \<open>The grids of the examples\<close>

text \<open>
  The grid of the specification's examples: three faces, the last one on the boundary;
  then the same grid with one non-neighboring connection, with an \<^verbatim>\<open>nnc\<close> object that
  has no \<^verbatim>\<open>cells\<close>, and with a malformed \<^verbatim>\<open>cells\<close> array of three columns.
\<close>

definition G_plain :: Grid where
  "G_plain = \<lparr>faces = \<lparr>neighbors = NDArray 2 [[0, 1], [1, 2], [- 1, 0]]\<rparr>, nnc = None\<rparr>"

definition G_nnc :: Grid where
  "G_nnc = G_plain\<lparr>nnc := Some \<lparr>cells = Some (NDArray 2 [[3, 5]])\<rparr>\<rparr>"

definition G_nocells :: Grid where
  "G_nocells = G_plain\<lparr>nnc := Some \<lparr>cells = None\<rparr>\<rparr>"

definition G_three :: Grid where
  "G_three = G_plain\<lparr>nnc := Some \<lparr>cells = Some (NDArray 3 [[3, 5, 7]])\<rparr>\<rparr>"

section \<open>Properties\<close>

subsection \<open>The building blocks\<close>

lemma and_then_Inr [simp]: "and_then (Inr x) f = f x"
  by (simp add: and_then_def)

lemma and_then_Inl [simp]: "and_then (Inl e) f = Inl e"
  by (simp add: and_then_def)

lemma nnc_cells_absent: "\<not> has_nnc_cells G \<Longrightarrow> nnc_cells G = Inl AttributeError"
  by (auto simp: has_nnc_cells_def nnc_cells_def hasattr_nnc_def getattr_nnc_def
        hasattr_cells_def getattr_cells_def split: option.splits)

lemma nnc_cells_present: "has_nnc_cells G \<Longrightarrow> \<exists>c. nnc_cells G = Inr c"
  by (auto simp: has_nnc_cells_def nnc_cells_def hasattr_nnc_def getattr_nnc_def
        hasattr_cells_def getattr_cells_def split: option.splits)

lemma has_nnc_cells_iff: "has_nnc_cells G \<longleftrightarrow> (\<exists>c. nnc_cells G = Inr c)"
proof
  assume "has_nnc_cells G"
  then show "\<exists>c. nnc_cells G = Inr c" by (rule nnc_cells_present)
next
  assume "\<exists>c. nnc_cells G = Inr c"
  then show "has_nnc_cells G"
    using nnc_cells_absent [of G] by (cases "has_nnc_cells G") auto
qed

lemma np_zeros_bool [simp]:
  "np_zeros (m, n) BoolType = Inr (NDArray n (replicate m (replicate n False)))"
  by (simp add: np_zeros_def np_full_def)

lemma np_ones_int [simp]: "np_ones shape (IntValue i) = Inl TypeError"
  by (simp add: np_ones_def np_full_def)

lemma append_nnc_absent [simp]: "\<not> has_nnc_cells G \<Longrightarrow> append_nnc G kind N = Inr N"
  by (simp add: append_nnc_def)

lemma append_nnc_other_kind [simp]: "kind \<noteq> ''Topological'' \<Longrightarrow> append_nnc G kind N = Inr N"
  by (simp add: append_nnc_def)

lemma append_nnc_topological:
  "nnc_cells G = Inr c \<Longrightarrow>
   append_nnc G ''Topological'' N =
     (if shape1 c = 2 then np_vstack N c else Inl AssertionError)"
  by (simp add: append_nnc_def has_nnc_cells_iff)

text \<open>The \<^verbatim>\<open>try\<close> block leaves the flags alone when \<^verbatim>\<open>G.nnc.cells\<close> is absent.\<close>

lemma append_flags_absent [simp]: "\<not> has_nnc_cells G \<Longrightarrow> append_flags G isnnc = Inr isnnc"
  by (simp add: append_flags_def nnc_cells_absent)

text \<open>
  When \<^verbatim>\<open>G.nnc.cells\<close> is present the block raises, whatever \<^verbatim>\<open>kind\<close> is: the call
  of \<^verbatim>\<open>np.ones\<close> fails and its \<^verbatim>\<open>TypeError\<close> is not caught.
\<close>

lemma append_flags_present [simp]: "has_nnc_cells G \<Longrightarrow> append_flags G isnnc = Inl TypeError"
  by (auto simp: append_flags_def dest: nnc_cells_present)

text \<open>Boolean indexing with the row selector is a filter on the rows.\<close>

lemma map_fst_filter_snd_zip:
  "map fst (filter snd (zip xs (map P xs))) = filter P xs"
  by (induction xs) auto

lemma rows_exclude_boundary:
  "rows (exclude_boundary N) = filter (\<lambda>r. - 1 \<notin> set r) (rows N)"
proof -
  have "np_all_axis1 (ne_scalar N (- 1)) = map (\<lambda>r. - 1 \<notin> set r) (rows N)"
    by (auto simp: np_all_axis1_def ne_scalar_def list_all_iff)
  then show ?thesis
    by (simp add: exclude_boundary_def index_rows_def map_fst_filter_snd_zip)
qed

lemma shape1_exclude_boundary [simp]: "shape1 (exclude_boundary N) = shape1 N"
  by (simp add: exclude_boundary_def index_rows_def)

lemma shape1_geometric_block [simp]:
  "shape1 (geometric_block G incBdry) = shape1 (neighbors (faces G))"
  by (simp add: geometric_block_def Let_def)

lemma rows_geometric_block:
  "rows (geometric_block G incBdry) =
     (if incBdry then rows (neighbors (faces G))
      else filter (\<lambda>r. - 1 \<notin> set r) (rows (neighbors (faces G))))"
  by (simp add: geometric_block_def Let_def rows_exclude_boundary)

text \<open>The outcome of a call without flags, and of a call with flags.\<close>

lemma getNeighborship_without_flags:
  "nargout < 2 \<Longrightarrow>
   getNeighborship G kind incBdry nargout =
     and_then (append_nnc G kind (geometric_block G incBdry)) (\<lambda>N. Inr (OnlyN N))"
  by (simp add: getNeighborship_def Let_def)

lemma getNeighborship_with_flags:
  "2 \<le> nargout \<Longrightarrow>
   getNeighborship G kind incBdry nargout =
     and_then (append_nnc G kind (geometric_block G incBdry)) (\<lambda>N.
     and_then (append_flags G
        (NDArray 1 (replicate (shape0 (geometric_block G incBdry)) [False]))) (\<lambda>isnnc.
     Inr (Both N isnnc)))"
  by (simp add: getNeighborship_def Let_def)

lemma example_has_nnc_cells [simp]:
  "\<not> has_nnc_cells G_plain" "\<not> has_nnc_cells G_nocells"
  "has_nnc_cells G_nnc" "has_nnc_cells G_three"
  by (simp_all add: has_nnc_cells_def hasattr_nnc_def getattr_nnc_def hasattr_cells_def
        G_plain_def G_nocells_def G_nnc_def G_three_def)

lemma example_nnc_cells [simp]:
  "nnc_cells G_nnc = Inr (NDArray 2 [[3, 5]])"
  "nnc_cells G_three = Inr (NDArray 3 [[3, 5, 7]])"
  by (simp_all add: nnc_cells_def getattr_nnc_def getattr_cells_def
        G_plain_def G_nnc_def G_three_def)

lemma example_geometric_block [simp]:
  "geometric_block G_plain False = NDArray 2 [[0, 1], [1, 2]]"
  "geometric_block G_plain True = NDArray 2 [[0, 1], [1, 2], [- 1, 0]]"
  "geometric_block G_nnc b = geometric_block G_plain b"
  "geometric_block G_nocells b = geometric_block G_plain b"
  "geometric_block G_three b = geometric_block G_plain b"
  by (simp_all add: geometric_block_def Let_def exclude_boundary_def index_rows_def
        np_all_axis1_def ne_scalar_def G_plain_def G_nnc_def G_nocells_def G_three_def)

lemma example_faces [simp]:
  "neighbors (faces G_plain) = NDArray 2 [[0, 1], [1, 2], [- 1, 0]]"
  "faces G_nnc = faces G_plain"
  "faces G_nocells = faces G_plain"
  "faces G_three = faces G_plain"
  by (simp_all add: G_plain_def G_nnc_def G_nocells_def G_three_def)

lemma has_nnc_cells_fields:
  "has_nnc_cells G \<longleftrightarrow> (\<exists>n c. nnc G = Some n \<and> cells n = Some c)"
  by (auto simp: has_nnc_cells_def hasattr_nnc_def getattr_nnc_def hasattr_cells_def
        split: option.splits)

text \<open>
  With flags requested and \<^verbatim>\<open>G.nnc.cells\<close> present no call returns, whatever the
  kind: either lines 111 to 113 raise, or the \<^verbatim>\<open>try\<close> block does.
\<close>

lemma flags_with_nnc_cells_raise:
  assumes "2 \<le> nargout" and "has_nnc_cells G"
  shows "\<exists>e. getNeighborship G kind incBdry nargout = Inl e"
proof (cases "append_nnc G kind (geometric_block G incBdry)")
  case (Inl e)
  with assms show ?thesis by (simp add: getNeighborship_with_flags)
next
  case (Inr N)
  with assms show ?thesis by (simp add: getNeighborship_with_flags)
qed

text \<open>
  Without flags, topological mode on a grid with a two-column \<^verbatim>\<open>nnc.cells\<close> returns
  the geometric block followed by the rows of \<^verbatim>\<open>nnc.cells\<close>, both in their order.
\<close>

lemma topological_appends_without_flags:
  assumes "nargout < 2" and "nnc_cells G = Inr c" and "shape1 c = 2"
    and "shape1 (neighbors (faces G)) = 2"
  shows "getNeighborship G ''Topological'' incBdry nargout =
           Inr (OnlyN (NDArray 2 (rows (geometric_block G incBdry) @ rows c)))"
  using assms
  by (simp add: getNeighborship_without_flags append_nnc_topological np_vstack_def)

text \<open>A kind other than \<^verbatim>\<open>"Topological"\<close> is treated as \<^verbatim>\<open>"Geometrical"\<close> is.\<close>

lemma other_kind_as_geometrical:
  "kind \<noteq> ''Topological'' \<Longrightarrow>
   getNeighborship G kind incBdry nargout = getNeighborship G ''Geometrical'' incBdry nargout"
  by (simp add: getNeighborship_def Let_def)

text \<open>Without flags, a call whose kind is not topological reads the faces only.\<close>

lemma other_kind_without_flags_ignores_nnc:
  assumes "nargout < 2" and "kind \<noteq> ''Topological''" and "faces G = faces G'"
  shows "getNeighborship G kind incBdry nargout = getNeighborship G' kind incBdry nargout"
  using assms by (simp add: getNeighborship_without_flags geometric_block_def)

subsection \<open>Claims about the flags\<close>

text \<open>
  C2. Whenever a call with \<^verbatim>\<open>nargout >= 2\<close> returns normally, it returns a pair whose
  \<^verbatim>\<open>isnnc\<close> has as many rows as the returned \<^verbatim>\<open>N\<close>, for every grid, every kind and
  every \<^verbatim>\<open>incBdry\<close>.
\<close>

theorem isnnc_rows_match_N:
  assumes "2 \<le> nargout" and "getNeighborship G kind incBdry nargout = Inr r"
  shows "\<exists>N isnnc. r = Both N isnnc \<and> shape0 isnnc = shape0 N"
proof (cases "has_nnc_cells G")
  case True
  from flags_with_nnc_cells_raise [OF assms(1) True, of kind incBdry] assms(2)
  show ?thesis by auto
next
  case False
  with assms have "r = Both (geometric_block G incBdry)
      (NDArray 1 (replicate (shape0 (geometric_block G incBdry)) [False]))"
    by (simp add: getNeighborship_with_flags)
  then show ?thesis by (simp add: shape0_def)
qed

theorem isnnc_rows_match_N_witness:
  "(2::int) \<le> 2 \<and>
   getNeighborship G_plain ''Topological'' False 2 =
     Inr (Both (NDArray 2 [[0, 1], [1, 2]]) (NDArray 1 [[False], [False]])) \<and>
   (\<exists>N isnnc. Both (NDArray 2 [[0, 1], [1, 2]]) (NDArray 1 [[False], [False]]) = Both N isnnc
      \<and> shape0 isnnc = shape0 N)"
proof -
  have le: "(2::int) \<le> 2" by simp
  have run: "getNeighborship G_plain ''Topological'' False 2 =
      Inr (Both (NDArray 2 [[0, 1], [1, 2]]) (NDArray 1 [[False], [False]]))"
    by (simp add: getNeighborship_with_flags shape0_def)
  from isnnc_rows_match_N [OF le run] le run show ?thesis by blast
qed

subsection \<open>Claims about malformed and absent NNC data\<close>

text \<open>
  C6. In topological mode, on a grid whose \<^verbatim>\<open>nnc.cells\<close> does not have exactly two
  columns, every call raises the assertion error of line 112 and returns nothing,
  whatever \<^verbatim>\<open>incBdry\<close> and \<^verbatim>\<open>nargout\<close> are.
\<close>

theorem topological_wrong_columns_raises:
  assumes "nnc_cells G = Inr c" and "shape1 c \<noteq> 2"
  shows "getNeighborship G ''Topological'' incBdry nargout = Inl AssertionError"
proof (cases "2 \<le> nargout")
  case True
  with assms show ?thesis
    by (simp add: getNeighborship_with_flags append_nnc_topological)
next
  case False
  with assms show ?thesis
    by (simp add: getNeighborship_without_flags append_nnc_topological)
qed

theorem topological_wrong_columns_raises_witness:
  "nnc_cells G_three = Inr (NDArray 3 [[3, 5, 7]]) \<and>
   shape1 (NDArray 3 [[3, 5, 7 :: int]]) \<noteq> 2 \<and>
   getNeighborship G_three ''Topological'' False 1 = Inl AssertionError \<and>
   getNeighborship G_three ''Topological'' True 2 = Inl AssertionError"
proof -
  have c: "nnc_cells G_three = Inr (NDArray 3 [[3, 5, 7]])" by simp
  have n: "shape1 (NDArray 3 [[3, 5, 7 :: int]]) \<noteq> 2" by simp
  from topological_wrong_columns_raises [OF c n, of False 1]
    topological_wrong_columns_raises [OF c n, of True 2] c n
  show ?thesis by blast
qed

text \<open>
  C7. On a grid whose \<^verbatim>\<open>nnc\<close> is absent, or present without \<^verbatim>\<open>cells\<close>, topological
  mode returns without error: \<^verbatim>\<open>N\<close> is the geometric block (filtered unless
  \<^verbatim>\<open>incBdry\<close>), and when flags are requested \<^verbatim>\<open>isnnc\<close> is returned too, one false
  entry for each row of \<^verbatim>\<open>N\<close>.
\<close>

theorem topological_without_nnc_cells:
  assumes "nnc G = None \<or> (\<exists>n. nnc G = Some n \<and> cells n = None)"
  shows "getNeighborship G ''Topological'' incBdry nargout =
           Inr (if 2 \<le> nargout
                then Both (geometric_block G incBdry)
                       (NDArray 1 (replicate (shape0 (geometric_block G incBdry)) [False]))
                else OnlyN (geometric_block G incBdry))"
proof -
  from assms have "\<not> has_nnc_cells G"
    by (auto simp: has_nnc_cells_fields)
  then show ?thesis
    by (simp add: getNeighborship_with_flags getNeighborship_without_flags)
qed

theorem topological_without_nnc_cells_witness:
  "(nnc G_plain = None \<or> (\<exists>n. nnc G_plain = Some n \<and> cells n = None)) \<and>
   (nnc G_nocells = None \<or> (\<exists>n. nnc G_nocells = Some n \<and> cells n = None)) \<and>
   getNeighborship G_plain ''Topological'' False 2 =
     Inr (Both (NDArray 2 [[0, 1], [1, 2]]) (NDArray 1 [[False], [False]])) \<and>
   getNeighborship G_nocells ''Topological'' True 1 =
     Inr (OnlyN (NDArray 2 [[0, 1], [1, 2], [- 1, 0]]))"
proof -
  have a: "nnc G_plain = None \<or> (\<exists>n. nnc G_plain = Some n \<and> cells n = None)"
    by (simp add: G_plain_def)
  have b: "nnc G_nocells = None \<or> (\<exists>n. nnc G_nocells = Some n \<and> cells n = None)"
    by (simp add: G_nocells_def)
  from topological_without_nnc_cells [OF a, of False 2]
    topological_without_nnc_cells [OF b, of True 1] a b
  show ?thesis by (simp add: shape0_def)
qed

subsection \<open>Claims that the flag path breaks\<close>

text \<open>
  C1. In geometrical mode with flags requested the returned \<^verbatim>\<open>isnnc\<close> should be all
  false also on a grid that carries \<^verbatim>\<open>nnc.cells\<close>. On the example grid with one
  non-neighboring connection the call returns nothing: the \<^verbatim>\<open>try\<close> block, which does
  not test the kind, reaches \<^verbatim>\<open>np.ones\<close> and raises \<^verbatim>\<open>TypeError\<close>, with the boundary
  rows excluded and with them included.
\<close>

theorem geometrical_flags_on_nnc_grid:
  "getNeighborship G_nnc ''Geometrical'' False 2 = Inl TypeError \<and>
   getNeighborship G_nnc ''Geometrical'' True 2 = Inl TypeError"
  by (simp add: getNeighborship_with_flags)

text \<open>
  C3. In topological mode with flags requested, on the example grid with one
  non-neighboring connection, \<^verbatim>\<open>isnnc\<close> should be two false entries followed by one
  true entry. The call raises \<^verbatim>\<open>TypeError\<close> instead: the column of ones is never built.
\<close>

theorem topological_flags_on_nnc_grid:
  "getNeighborship G_nnc ''Topological'' False 2 = Inl TypeError"
  by (simp add: getNeighborship_with_flags append_nnc_topological np_vstack_def)

text \<open>
  C4. In topological mode the returned \<^verbatim>\<open>N\<close> should be the geometric block followed by
  the rows of \<^verbatim>\<open>nnc.cells\<close>. On the example grid with the boundary rows included, the
  call without flags returns these four rows, and the call with flags raises
  \<^verbatim>\<open>TypeError\<close> and returns no \<^verbatim>\<open>N\<close>.
\<close>

theorem topological_N_on_nnc_grid:
  "getNeighborship G_nnc ''Topological'' True 1 =
     Inr (OnlyN (NDArray 2 [[0, 1], [1, 2], [- 1, 0], [3, 5]])) \<and>
   getNeighborship G_nnc ''Topological'' True 2 = Inl TypeError"
  by (simp add: getNeighborship_with_flags getNeighborship_without_flags
        append_nnc_topological np_vstack_def)

text \<open>
  C8. Two grids with the same faces, one without \<^verbatim>\<open>nnc\<close> and one with
  \<^verbatim>\<open>nnc.cells\<close>, should give the same outcome in geometrical mode. With flags requested
  the first call returns and the second raises \<^verbatim>\<open>TypeError\<close>: the \<^verbatim>\<open>try\<close> block reads
  \<^verbatim>\<open>G.nnc.cells\<close> in every mode.
\<close>

theorem geometrical_reads_nnc:
  "faces G_nnc = faces G_plain \<and>
   getNeighborship G_plain ''Geometrical'' False 2 =
     Inr (Both (NDArray 2 [[0, 1], [1, 2]]) (NDArray 1 [[False], [False]])) \<and>
   getNeighborship G_nnc ''Geometrical'' False 2 = Inl TypeError"
  by (simp add: getNeighborship_with_flags shape0_def)

text \<open>
  C10. A kind other than \<^verbatim>\<open>"Topological"\<close> should raise no error and behave as
  \<^verbatim>\<open>"Geometrical"\<close> does. The kind \<^verbatim>\<open>"topological"\<close> is treated as \<^verbatim>\<open>"Geometrical"\<close>
  is (lemma \<open>other_kind_as_geometrical\<close>), and without flags it returns the geometric
  block; with flags on the example grid with one non-neighboring connection it raises
  \<^verbatim>\<open>TypeError\<close>.
\<close>

theorem unknown_kind_on_nnc_grid:
  "getNeighborship G_nnc ''topological'' False 1 = Inr (OnlyN (NDArray 2 [[0, 1], [1, 2]])) \<and>
   getNeighborship G_nnc ''topological'' False 2 = Inl TypeError"
  by (simp add: getNeighborship_with_flags getNeighborship_without_flags)

subsection \<open>Claims about the boundary filter and the arity\<close>

text \<open>
  C5, as stated, fails in topological mode: on the example grid with one
  non-neighboring connection the returned \<^verbatim>\<open>N\<close> ends with the row \<^verbatim>\<open>[3, 5]\<close>, which
  is no row of \<^verbatim>\<open>G.faces.neighbors\<close>.
\<close>

theorem boundary_filter_counterexample:
  "getNeighborship G_nnc ''Topological'' False 1 =
     Inr (OnlyN (NDArray 2 [[0, 1], [1, 2], [3, 5]])) \<and>
   [3, 5] \<notin> set (rows (neighbors (faces G_nnc)))"
  by (simp add: getNeighborship_without_flags append_nnc_topological np_vstack_def)

text \<open>
  C5, amended. When no NNC rows are appended (the kind is not \<^verbatim>\<open>"Topological"\<close>, or the
  grid has no \<^verbatim>\<open>nnc.cells\<close>), and flags are not requested or the grid has no
  \<^verbatim>\<open>nnc.cells\<close>, the call returns, and \<^verbatim>\<open>N\<close> has the columns of
  \<^verbatim>\<open>G.faces.neighbors\<close> and exactly these rows: with \<^verbatim>\<open>incBdry\<close> false the rows of
  \<^verbatim>\<open>G.faces.neighbors\<close> in which no entry is \<^verbatim>\<open>-1\<close>, in their order; with \<^verbatim>\<open>incBdry\<close>
  true all rows, unfiltered.
\<close>

theorem boundary_filter:
  assumes "kind \<noteq> ''Topological'' \<or> \<not> has_nnc_cells G"
    and "nargout < 2 \<or> \<not> has_nnc_cells G"
  shows "\<exists>r. getNeighborship G kind incBdry nargout = Inr r \<and>
           shape1 (result_N r) = shape1 (neighbors (faces G)) \<and>
           rows (result_N r) =
             (if incBdry then rows (neighbors (faces G))
              else filter (\<lambda>row. - 1 \<notin> set row) (rows (neighbors (faces G))))"
proof -
  let ?B = "geometric_block G incBdry"
  from assms(1) have app: "append_nnc G kind ?B = Inr ?B" by auto
  show ?thesis
  proof (cases "2 \<le> nargout")
    case True
    with assms(2) have "\<not> has_nnc_cells G" by simp
    with True app have "getNeighborship G kind incBdry nargout =
        Inr (Both ?B (NDArray 1 (replicate (shape0 ?B) [False])))"
      by (simp add: getNeighborship_with_flags)
    then show ?thesis by (simp add: rows_geometric_block)
  next
    case False
    with app have "getNeighborship G kind incBdry nargout = Inr (OnlyN ?B)"
      by (simp add: getNeighborship_without_flags)
    then show ?thesis by (simp add: rows_geometric_block)
  qed
qed

theorem boundary_filter_witness:
  "''Geometrical'' \<noteq> ''Topological'' \<and> (1::int) < 2 \<and> has_nnc_cells G_nnc \<and>
   (\<exists>r. getNeighborship G_nnc ''Geometrical'' False 1 = Inr r \<and>
      shape1 (result_N r) = 2 \<and> rows (result_N r) = [[0, 1], [1, 2]]) \<and>
   (\<exists>r. getNeighborship G_nnc ''Geometrical'' True 1 = Inr r \<and>
      shape1 (result_N r) = 2 \<and> rows (result_N r) = [[0, 1], [1, 2], [- 1, 0]])"
proof -
  have k: "''Geometrical'' \<noteq> ''Topological'' \<or> \<not> has_nnc_cells G_nnc" by simp
  have n: "(1::int) < 2 \<or> \<not> has_nnc_cells G_nnc" by simp
  have f: "neighbors (faces G_nnc) = NDArray 2 [[0, 1], [1, 2], [- 1, 0]]"
    by simp
  from boundary_filter [OF k n, of False] boundary_filter [OF k n, of True]
  show ?thesis by (simp add: f)
qed

text \<open>
  C9, as stated, fails: a call with \<^verbatim>\<open>nargout = 1\<close> need not return \<^verbatim>\<open>N\<close>. In
  topological mode on the example grid with a three-column \<^verbatim>\<open>nnc.cells\<close> it raises the
  assertion error.
\<close>

theorem arity_counterexample:
  "getNeighborship G_three ''Topological'' False 1 = Inl AssertionError"
  by (simp add: getNeighborship_without_flags append_nnc_topological)

text \<open>
  C9, amended. The outcome of a call depends on \<^verbatim>\<open>nargout\<close> only through the test
  \<^verbatim>\<open>nargout >= 2\<close>: every value of at least 2 gives the outcome of 2 and every smaller
  value, zero and the negative ones too, gives the outcome of 1. A call that returns
  normally returns the pair when \<^verbatim>\<open>nargout >= 2\<close> and \<^verbatim>\<open>N\<close> alone otherwise.
\<close>

theorem arity_by_threshold:
  "getNeighborship G kind incBdry nargout =
     getNeighborship G kind incBdry (if 2 \<le> nargout then 2 else 1) \<and>
   (\<forall>r. getNeighborship G kind incBdry nargout = Inr r \<longrightarrow>
      arity r = (if 2 \<le> nargout then 2 else 1))"
proof (cases "2 \<le> nargout")
  case True
  then have eq: "getNeighborship G kind incBdry nargout = getNeighborship G kind incBdry 2"
    by (simp add: getNeighborship_with_flags)
  have "arity r = 2" if "getNeighborship G kind incBdry nargout = Inr r" for r
    using that True
    by (auto simp: getNeighborship_with_flags and_then_def split: sum.splits)
  with True eq show ?thesis by simp
next
  case False
  then have eq: "getNeighborship G kind incBdry nargout = getNeighborship G kind incBdry 1"
    by (simp add: getNeighborship_without_flags)
  have "arity r = 1" if "getNeighborship G kind incBdry nargout = Inr r" for r
    using that False
    by (auto simp: getNeighborship_without_flags and_then_def split: sum.splits)
  with False eq show ?thesis by simp
qed

theorem arity_by_threshold_witness:
  "getNeighborship G_plain ''Geometrical'' False 5 =
     Inr (Both (NDArray 2 [[0, 1], [1, 2]]) (NDArray 1 [[False], [False]])) \<and>
   arity (Both (NDArray 2 [[0, 1], [1, 2]]) (NDArray 1 [[False], [False]])) =
     (if (2::int) \<le> 5 then 2 else 1) \<and>
   getNeighborship G_plain ''Geometrical'' False (- 3) = Inr (OnlyN (NDArray 2 [[0, 1], [1, 2]])) \<and>
   arity (OnlyN (NDArray 2 [[0, 1], [1, 2]])) = (if (2::int) \<le> - 3 then 2 else 1)"
proof -
  have a: "getNeighborship G_plain ''Geometrical'' False 5 =
      Inr (Both (NDArray 2 [[0, 1], [1, 2]]) (NDArray 1 [[False], [False]]))"
    by (simp add: getNeighborship_with_flags shape0_def)
  have b: "getNeighborship G_plain ''Geometrical'' False (- 3) =
      Inr (OnlyN (NDArray 2 [[0, 1], [1, 2]]))"
    by (simp add: getNeighborship_without_flags)
  from arity_by_threshold [of G_plain "''Geometrical''" False 5] a
  have "arity (Both (NDArray 2 [[0, 1], [1, 2]]) (NDArray 1 [[False], [False]])) =
      (if (2::int) \<le> 5 then 2 else 1)"
    by blast
  moreover from arity_by_threshold [of G_plain "''Geometrical''" False "- 3"] b
  have "arity (OnlyN (NDArray 2 [[0, 1], [1, 2]])) = (if (2::int) \<le> - 3 then 2 else 1)"
    by blast
  ultimately show ?thesis using a b by blast
qed

end
